theory Spec2Isabelle
  imports Complex_Main "HOL-Library.Word" "HOL-Library.Sublist"
begin

section \<open>The AI title generator plugin\<close>

text \<open>
  The development follows the plugin class \<open>AITitlePlugin\<close> of the most recent revision in
  the repository: the one with \<open>sanitizeFileName\<close>, \<open>makeAPIRequest\<close> and the customisable
  prompt. The earlier revisions kept beside it define the same class without these members.

  The host editor (\<open>requestUrl\<close>, \<open>fileManager.renameFile\<close>, \<open>Notice\<close>, \<open>console.error\<close>)
  is outside the repository: what the plugin asks of it is recorded as a list of events, and
  what it answers is a parameter of the model. \<open>obsidianHost\<close> below fixes the one answer
  that the editor's API documents: a request is rejected when the status is 400 or more.
\<close>

subsection \<open>Strings\<close>

text \<open>
  A JavaScript string is a sequence of UTF-16 code units. The regular expressions of the
  plugin carry no \<open>u\<close> flag, so they work on code units too. \<open>str\<close> embeds an ASCII
  literal.
\<close>

type_synonym jstring = "16 word list"

definition str :: "string \<Rightarrow> jstring" where
  "str s = map (\<lambda>c. word_of_nat (of_char c)) s"

text \<open>
  \<open>String.prototype.trim\<close> removes WhiteSpace and LineTerminator code points from both
  ends: TAB, LF, VT, FF, CR, SPACE, NBSP, U+1680, U+2000 to U+200A, U+2028, U+2029, U+202F,
  U+205F, U+3000 and U+FEFF.
\<close>

definition isWhiteSpace :: "16 word \<Rightarrow> bool" where
  "isWhiteSpace c \<longleftrightarrow>
     c \<in> {0x09, 0x0A, 0x0B, 0x0C, 0x0D, 0x20, 0xA0, 0x1680,
          0x2028, 0x2029, 0x202F, 0x205F, 0x3000, 0xFEFF}
     \<or> (0x2000 \<le> c \<and> c \<le> 0x200A)"

definition trim :: "jstring \<Rightarrow> jstring" where
  "trim s = rev (dropWhile isWhiteSpace (rev (dropWhile isWhiteSpace s)))"

text \<open>
  \<open>Number.prototype.toString\<close> on an integral number below \<open>10^21\<close> in magnitude: the
  decimal digits, with a minus sign for a negative value.
\<close>

fun digits :: "nat \<Rightarrow> jstring" where
  "digits n =
     (if n < 10 then [0x30 + word_of_nat n]
      else digits (n div 10) @ [0x30 + word_of_nat (n mod 10)])"

declare digits.simps [simp del]

definition Number_toString :: "int \<Rightarrow> jstring" where
  "Number_toString n = (if n < 0 then 0x2D # digits (nat (- n)) else digits (nat n))"

text \<open>
  The substitution that \<open>String.prototype.replace\<close> applies to a replacement string
  (GetSubstitution of ECMAScript) when the pattern has no capture group: \<open>$$\<close> stands for a
  dollar sign, \<open>$&\<close> for the matched text, \<open>$`\<close> for the text before the match and
  \<open>$'\<close> for the text after it; a dollar sign followed by anything else is copied.
\<close>

fun GetSubstitution :: "jstring \<Rightarrow> jstring \<Rightarrow> jstring \<Rightarrow> jstring \<Rightarrow> jstring" where
  "GetSubstitution matched pre post (a # b # r) =
     (if a = 0x24 \<and> b = 0x24 then 0x24 # GetSubstitution matched pre post r
      else if a = 0x24 \<and> b = 0x26 then matched @ GetSubstitution matched pre post r
      else if a = 0x24 \<and> b = 0x60 then pre @ GetSubstitution matched pre post r
      else if a = 0x24 \<and> b = 0x27 then post @ GetSubstitution matched pre post r
      else a # GetSubstitution matched pre post (b # r))"
| "GetSubstitution matched pre post r = r"

text \<open>\<open>s.replace(pattern, replacement)\<close> with a string pattern: the first occurrence only.\<close>

fun findFirst :: "jstring \<Rightarrow> jstring \<Rightarrow> (jstring \<times> jstring) option" where
  "findFirst pat [] = (if pat = [] then Some ([], []) else None)"
| "findFirst pat (c # s) =
     (if prefix pat (c # s) then Some ([], drop (length pat) (c # s))
      else map_option (\<lambda>(b, a). (c # b, a)) (findFirst pat s))"

definition replaceString :: "jstring \<Rightarrow> jstring \<Rightarrow> jstring \<Rightarrow> jstring" where
  "replaceString s pat replacement =
     (case findFirst pat s of
        None \<Rightarrow> s
      | Some (b, a) \<Rightarrow> b @ GetSubstitution pat b a replacement @ a)"

text \<open>
  \<open>path.replace(/[^/]+$/, replacement)\<close>: the leftmost match of the pattern is the longest
  suffix of the path without a slash, when that suffix is not empty; with no match the
  string is returned as it is. Nothing follows the match.
\<close>

definition lastSegment :: "jstring \<Rightarrow> jstring" where
  "lastSegment path = rev (takeWhile (\<lambda>c. c \<noteq> 0x2F) (rev path))"

definition beforeLastSegment :: "jstring \<Rightarrow> jstring" where
  "beforeLastSegment path = rev (dropWhile (\<lambda>c. c \<noteq> 0x2F) (rev path))"

definition replaceLastSegment :: "jstring \<Rightarrow> jstring \<Rightarrow> jstring" where
  "replaceLastSegment path replacement =
     (if lastSegment path = [] then path
      else beforeLastSegment path
             @ GetSubstitution (lastSegment path) (beforeLastSegment path) [] replacement)"

subsection \<open>sanitizeFileName\<close>

text \<open>
  \<^verbatim>\<open>
  return fileName
    .replace(/[\\/:*?"<>|]/g, '')
    .replace(/\.\./g, '.')
    .trim();
  \<close>
  The first replacement deletes every code unit of the class. The second scans from the
  left and replaces each match of two dots by one, going on behind the match.
\<close>

definition invalid_chars :: "16 word list" where
  "invalid_chars = [0x5C, 0x2F, 0x3A, 0x2A, 0x3F, 0x22, 0x3C, 0x3E, 0x7C]"

fun replace_dotdot :: "jstring \<Rightarrow> jstring" where
  "replace_dotdot (a # b # r) =
     (if a = 0x2E \<and> b = 0x2E then 0x2E # replace_dotdot r
      else a # replace_dotdot (b # r))"
| "replace_dotdot r = r"

definition sanitizeFileName :: "jstring \<Rightarrow> jstring" where
  "sanitizeFileName fileName =
     trim (replace_dotdot (filter (\<lambda>c. c \<notin> set invalid_chars) fileName))"

subsection \<open>JavaScript values, errors and property reads\<close>

text \<open>
  \<open>response.json\<close> has type \<open>any\<close>: it is whatever the body parses to. A number is the
  rational it denotes (the plugin tests numbers for zero only, and leaves their rendering to
  the runtime); an object is the list of its own properties, read with \<open>map_of\<close>.
  \<open>JUndefined\<close> is what reading an absent property gives; no parsed body contains it.
\<close>

datatype jsval =
    JUndefined
  | JNull
  | JBool bool
  | JNum rat
  | JStr jstring
  | JArr "jsval list"
  | JObj "(jstring \<times> jsval) list"

text \<open>
  What a \<open>throw\<close> carries: an \<open>Error\<close> made by the plugin, a \<open>TypeError\<close> of the
  runtime, or a value that is no instance of \<open>Error\<close> (a rejection of the host).
\<close>

datatype js_error = Error jstring | TypeError jstring | NonError

fun truthy :: "jsval \<Rightarrow> bool" where
  "truthy JUndefined = False"
| "truthy JNull = False"
| "truthy (JBool b) = b"
| "truthy (JNum r) = (r \<noteq> 0)"
| "truthy (JStr s) = (s \<noteq> [])"
| "truthy (JArr xs) = True"
| "truthy (JObj kvs) = True"

definition cannotRead :: "jstring \<Rightarrow> jstring \<Rightarrow> js_error" where
  "cannotRead what k =
     TypeError (str ''Cannot read properties of '' @ what @ str '' (reading '' @ [0x27] @ k
                @ [0x27] @ str '')'')"

text \<open>
  \<open>v.k\<close> for the property names the plugin reads (\<open>content\<close>, \<open>text\<close>, \<open>choices\<close>,
  \<open>message\<close>, \<open>candidates\<close>, \<open>parts\<close>, \<open>error\<close>), none of which a built-in prototype
  defines: reading from \<open>null\<close> or \<open>undefined\<close> throws, an object gives its own property,
  every other value gives \<open>undefined\<close>.
\<close>

fun getProp :: "jsval \<Rightarrow> jstring \<Rightarrow> js_error + jsval" where
  "getProp JUndefined k = Inl (cannotRead (str ''undefined'') k)"
| "getProp JNull k = Inl (cannotRead (str ''null'') k)"
| "getProp (JObj kvs) k = Inr (case map_of kvs k of None \<Rightarrow> JUndefined | Some v \<Rightarrow> v)"
| "getProp v k = Inr JUndefined"

text \<open>
  \<open>v[i]\<close>: an array element, a one-unit string out of a string, the property named by the
  decimal numeral on an object, \<open>undefined\<close> out of range and on other values.
\<close>

fun getIndex :: "jsval \<Rightarrow> nat \<Rightarrow> js_error + jsval" where
  "getIndex JUndefined i = Inl (cannotRead (str ''undefined'') (digits i))"
| "getIndex JNull i = Inl (cannotRead (str ''null'') (digits i))"
| "getIndex (JArr xs) i = Inr (if i < length xs then xs ! i else JUndefined)"
| "getIndex (JStr s) i = Inr (if i < length s then JStr [s ! i] else JUndefined)"
| "getIndex (JObj kvs) i = getProp (JObj kvs) (digits i)"
| "getIndex v i = Inr JUndefined"

text \<open>
  \<open>v.trim()\<close>: only a string has it; a JSON value never holds a function, so the
  call on any other value that is not \<open>null\<close> is a TypeError.
\<close>

fun callTrim :: "jstring \<Rightarrow> jsval \<Rightarrow> js_error + jstring" where
  "callTrim expr (JStr s) = Inr (trim s)"
| "callTrim expr JUndefined = Inl (cannotRead (str ''undefined'') (str ''trim''))"
| "callTrim expr JNull = Inl (cannotRead (str ''null'') (str ''trim''))"
| "callTrim expr v = Inl (TypeError (expr @ str ''.trim is not a function''))"

text \<open>
  One operand \<open>!e\<close> of a guard \<open>if (!e1 || !e2 || ...) throw new Error(msg)\<close>: evaluating
  \<open>e\<close> may throw; a falsy value throws the Error; a truthy one lets the next operand run.
\<close>

definition guarded ::
  "js_error + jsval \<Rightarrow> jstring \<Rightarrow> (jsval \<Rightarrow> js_error + 'a) \<Rightarrow> js_error + 'a" where
  "guarded e msg k =
     (case e of
        Inl err \<Rightarrow> Inl err
      | Inr v \<Rightarrow> if truthy v then k v else Inl (Error msg))"

subsection \<open>Settings\<close>

text \<open>
  \<open>UNKNOWN\<close> is a persisted value outside the enum (the settings are merged from disk
  unchecked): the \<open>default\<close> arm of each \<open>switch\<close>.
\<close>

datatype ProviderType = ANTHROPIC | OPENAI | GEMINI | UNKNOWN

record AITitlePluginSettings =
  provider :: ProviderType
  anthropicApiKey :: jstring
  openaiApiKey :: jstring
  geminiApiKey :: jstring
  maxTitleLength :: int
  anthropicModel :: jstring
  openaiModel :: jstring
  geminiModel :: jstring
  customPrompt :: jstring

definition DEFAULT_SETTINGS :: AITitlePluginSettings where
  "DEFAULT_SETTINGS =
     \<lparr>provider = ANTHROPIC,
      anthropicApiKey = [],
      openaiApiKey = [],
      geminiApiKey = [],
      maxTitleLength = 110,
      anthropicModel = str ''claude-3-7-sonnet-latest'',
      openaiModel = str ''gpt-4o'',
      geminiModel = str ''gemini-1.5-pro'',
      customPrompt =
        str ''You create concise summaries. Your summaries must:'' @ [0x0A]
        @ str ''- Be exactly one sentence'' @ [0x0A]
        @ str ''- Never exceed {maxTitleLength} characters'' @ [0x0A]
        @ str ''- Avoid names, emojis, links, and colons'' @ [0x0A]
        @ str ''- Focus on behaviors and impact'' @ [0x0A]
        @ str ''- Return only the summary text, nothing else''\<rparr>"

definition getApiKey :: "AITitlePluginSettings \<Rightarrow> jstring" where
  "getApiKey settings =
     (case provider settings of
        ANTHROPIC \<Rightarrow> anthropicApiKey settings
      | OPENAI \<Rightarrow> openaiApiKey settings
      | GEMINI \<Rightarrow> geminiApiKey settings
      | UNKNOWN \<Rightarrow> [])"

definition getProviderName :: "AITitlePluginSettings \<Rightarrow> jstring" where
  "getProviderName settings =
     (case provider settings of
        ANTHROPIC \<Rightarrow> str ''Anthropic''
      | OPENAI \<Rightarrow> str ''OpenAI''
      | GEMINI \<Rightarrow> str ''Google Gemini''
      | UNKNOWN \<Rightarrow> str ''AI Provider'')"

subsection \<open>The host and what the plugin asks of it\<close>

text \<open>
  The argument of \<open>requestUrl\<close>. The field \<open>httpMethod\<close> is the property \<open>method\<close>,
  and \<open>body\<close> holds the value that the plugin hands to \<open>JSON.stringify\<close>.
\<close>

record request =
  url :: jstring
  httpMethod :: jstring
  headers :: "(jstring \<times> jstring) list"
  body :: jsval

record response =
  status :: int
  json :: jsval

text \<open>
  \<open>requestUrl\<close> answers a request with a response or rejects; \<open>renameFile\<close> takes the
  file's path and the new path and resolves (\<open>None\<close>) or rejects; \<open>ToString\<close> is the
  runtime's conversion of a value that is not a string inside a template literal.
\<close>

record host =
  requestUrl :: "request \<Rightarrow> js_error + response"
  renameFile :: "jstring \<Rightarrow> jstring \<Rightarrow> js_error option"
  ToString :: "jsval \<Rightarrow> jstring"

datatype event =
    Notice jstring
  | ConsoleError jstring js_error
  | GetValue
  | HttpRequest request
  | RenameFile jstring jstring

text \<open>The active view: the editor's text and the path of \<open>view.file\<close>, if there is one.\<close>

record MarkdownView =
  editorValue :: jstring
  filePath :: "jstring option"

subsection \<open>makeAPIRequest\<close>

text \<open>\<open>${v}\<close> in a template literal: a string as it is, any other value through the runtime.\<close>

definition templateString :: "host \<Rightarrow> jsval \<Rightarrow> jstring" where
  "templateString h v = (case v of JStr s \<Rightarrow> s | _ \<Rightarrow> ToString h v)"

text \<open>
  The message built for a status other than 200:
  \<^verbatim>\<open>
  const errorData = response.json;
  let errorMessage = `API request failed with status ${response.status}`;
  if (errorData && errorData.error) {
    if (typeof errorData.error === 'string') {
      errorMessage += `: ${errorData.error}`;
    } else if (errorData.error.message) {
      errorMessage += `: ${errorData.error.message}`;
    }
  }
  \<close>
\<close>

definition failureMessage :: "host \<Rightarrow> response \<Rightarrow> js_error + jstring" where
  "failureMessage h response =
     (let errorData = json response;
          errorMessage =
            str ''API request failed with status '' @ Number_toString (status response)
      in if truthy errorData then
           (case getProp errorData (str ''error'') of
              Inl e \<Rightarrow> Inl e
            | Inr err \<Rightarrow>
                if truthy err then
                  (case err of
                     JStr s \<Rightarrow> Inr (errorMessage @ str '': '' @ s)
                   | _ \<Rightarrow>
                      (case getProp err (str ''message'') of
                         Inl e \<Rightarrow> Inl e
                       | Inr m \<Rightarrow>
                           if truthy m
                           then Inr (errorMessage @ str '': '' @ templateString h m)
                           else Inr errorMessage))
                else Inr errorMessage)
         else Inr errorMessage)"

definition makeAPIRequest ::
  "host \<Rightarrow> jstring \<Rightarrow> (jstring \<times> jstring) list \<Rightarrow> jsval
     \<Rightarrow> event list \<times> (js_error + response)" where
  "makeAPIRequest h u hs b =
     (let req = \<lparr>url = u, httpMethod = str ''POST'', headers = hs, body = b\<rparr> in
      ([HttpRequest req],
       case requestUrl h req of
         Inl e \<Rightarrow> Inl e
       | Inr response \<Rightarrow>
           if status response \<noteq> 200 then
             (case failureMessage h response of
                Inl e \<Rightarrow> Inl e
              | Inr errorMessage \<Rightarrow> Inl (Error errorMessage))
           else Inr response))"

subsection \<open>The three provider calls\<close>

definition buildPrompt :: "AITitlePluginSettings \<Rightarrow> jstring" where
  "buildPrompt settings =
     replaceString (customPrompt settings) (str ''{maxTitleLength}'')
       (Number_toString (maxTitleLength settings))"

text \<open>The \<open>catch\<close> of each provider call logs the error and throws it again.\<close>

definition logAndRethrow ::
  "jstring \<Rightarrow> event list \<times> (js_error + 'a) \<Rightarrow> event list \<times> (js_error + 'a)" where
  "logAndRethrow label p =
     (case snd p of
        Inl error \<Rightarrow> (fst p @ [ConsoleError label error], Inl error)
      | Inr x \<Rightarrow> p)"

text \<open>
  \<^verbatim>\<open>
  if (!data.content || !data.content[0] || !data.content[0].text) {
    throw new Error('Unexpected response format from Anthropic API');
  }
  return data.content[0].text.trim();
  \<close>
\<close>

definition anthropicTitle :: "jsval \<Rightarrow> js_error + jstring" where
  "anthropicTitle data =
     (let msg = str ''Unexpected response format from Anthropic API'' in
      guarded (getProp data (str ''content'')) msg (\<lambda>content.
      guarded (getIndex content 0) msg (\<lambda>content0.
      guarded (getProp content0 (str ''text'')) msg (\<lambda>text.
      callTrim (str ''data.content[0].text'') text))))"

definition anthropicBody :: "AITitlePluginSettings \<Rightarrow> jstring \<Rightarrow> jsval" where
  "anthropicBody settings text =
     JObj [(str ''model'', JStr (anthropicModel settings)),
           (str ''max_tokens'', JNum 100),
           (str ''temperature'', JNum (7 / 10)),
           (str ''messages'',
            JArr [JObj [(str ''role'', JStr (str ''user'')),
                        (str ''content'', JStr (buildPrompt settings))],
                  JObj [(str ''role'', JStr (str ''user'')),
                        (str ''content'', JStr text)]])]"

definition callAnthropicAPI ::
  "host \<Rightarrow> AITitlePluginSettings \<Rightarrow> jstring \<Rightarrow> event list \<times> (js_error + jstring)" where
  "callAnthropicAPI h settings text =
     logAndRethrow (str ''Error calling Anthropic API:'')
       (let (evs, r) =
              makeAPIRequest h (str ''https://api.anthropic.com/v1/messages'')
                [(str ''Content-Type'', str ''application/json''),
                 (str ''x-api-key'', anthropicApiKey settings),
                 (str ''anthropic-version'', str ''2023-06-01'')]
                (anthropicBody settings text)
        in (evs, case r of Inl e \<Rightarrow> Inl e | Inr response \<Rightarrow> anthropicTitle (json response)))"

text \<open>
  \<^verbatim>\<open>
  if (!data.choices || !data.choices[0] || !data.choices[0].message
      || !data.choices[0].message.content) {
    throw new Error('Unexpected response format from OpenAI API');
  }
  return data.choices[0].message.content.trim();
  \<close>
\<close>

definition openaiTitle :: "jsval \<Rightarrow> js_error + jstring" where
  "openaiTitle data =
     (let msg = str ''Unexpected response format from OpenAI API'' in
      guarded (getProp data (str ''choices'')) msg (\<lambda>choices.
      guarded (getIndex choices 0) msg (\<lambda>choices0.
      guarded (getProp choices0 (str ''message'')) msg (\<lambda>message.
      guarded (getProp message (str ''content'')) msg (\<lambda>content.
      callTrim (str ''data.choices[0].message.content'') content)))))"

definition openaiBody :: "AITitlePluginSettings \<Rightarrow> jstring \<Rightarrow> jsval" where
  "openaiBody settings text =
     JObj [(str ''model'', JStr (openaiModel settings)),
           (str ''max_tokens'', JNum 100),
           (str ''temperature'', JNum (7 / 10)),
           (str ''messages'',
            JArr [JObj [(str ''role'', JStr (str ''system'')),
                        (str ''content'', JStr (buildPrompt settings))],
                  JObj [(str ''role'', JStr (str ''user'')),
                        (str ''content'', JStr text)]])]"

definition callOpenAIAPI ::
  "host \<Rightarrow> AITitlePluginSettings \<Rightarrow> jstring \<Rightarrow> event list \<times> (js_error + jstring)" where
  "callOpenAIAPI h settings text =
     logAndRethrow (str ''Error calling OpenAI API:'')
       (let (evs, r) =
              makeAPIRequest h (str ''https://api.openai.com/v1/chat/completions'')
                [(str ''Content-Type'', str ''application/json''),
                 (str ''Authorization'', str ''Bearer '' @ openaiApiKey settings)]
                (openaiBody settings text)
        in (evs, case r of Inl e \<Rightarrow> Inl e | Inr response \<Rightarrow> openaiTitle (json response)))"

text \<open>
  \<^verbatim>\<open>
  if (!data.candidates || !data.candidates[0] || !data.candidates[0].content ||
      !data.candidates[0].content.parts || !data.candidates[0].content.parts[0] ||
      !data.candidates[0].content.parts[0].text) {
    throw new Error('Unexpected response format from Gemini API');
  }
  return data.candidates[0].content.parts[0].text.trim();
  \<close>
\<close>

definition geminiTitle :: "jsval \<Rightarrow> js_error + jstring" where
  "geminiTitle data =
     (let msg = str ''Unexpected response format from Gemini API'' in
      guarded (getProp data (str ''candidates'')) msg (\<lambda>candidates.
      guarded (getIndex candidates 0) msg (\<lambda>candidates0.
      guarded (getProp candidates0 (str ''content'')) msg (\<lambda>content.
      guarded (getProp content (str ''parts'')) msg (\<lambda>parts.
      guarded (getIndex parts 0) msg (\<lambda>parts0.
      guarded (getProp parts0 (str ''text'')) msg (\<lambda>text.
      callTrim (str ''data.candidates[0].content.parts[0].text'') text)))))))"

definition geminiBody :: "AITitlePluginSettings \<Rightarrow> jstring \<Rightarrow> jsval" where
  "geminiBody settings text =
     JObj [(str ''contents'',
            JArr [JObj [(str ''role'', JStr (str ''user'')),
                        (str ''parts'',
                         JArr [JObj [(str ''text'',
                                      JStr (buildPrompt settings @ [0x0A, 0x0A]
                                            @ str ''Here is the content to summarize:''
                                            @ [0x0A] @ text))]])]]),
           (str ''generationConfig'',
            JObj [(str ''temperature'', JNum (7 / 10)),
                  (str ''maxOutputTokens'', JNum 100)])]"

definition callGeminiAPI ::
  "host \<Rightarrow> AITitlePluginSettings \<Rightarrow> jstring \<Rightarrow> event list \<times> (js_error + jstring)" where
  "callGeminiAPI h settings text =
     logAndRethrow (str ''Error calling Gemini API:'')
       (let (evs, r) =
              makeAPIRequest h
                (str ''https://generativelanguage.googleapis.com/v1/models/''
                 @ geminiModel settings @ str '':generateContent?key=''
                 @ geminiApiKey settings)
                [(str ''Content-Type'', str ''application/json'')]
                (geminiBody settings text)
        in (evs, case r of Inl e \<Rightarrow> Inl e | Inr response \<Rightarrow> geminiTitle (json response)))"

subsection \<open>generateTitle\<close>

text \<open>The \<open>switch\<close> on the configured provider.\<close>

definition callProvider ::
  "host \<Rightarrow> AITitlePluginSettings \<Rightarrow> jstring \<Rightarrow> event list \<times> (js_error + jstring)" where
  "callProvider h settings text =
     (case provider settings of
        ANTHROPIC \<Rightarrow> callAnthropicAPI h settings text
      | OPENAI \<Rightarrow> callOpenAIAPI h settings text
      | GEMINI \<Rightarrow> callGeminiAPI h settings text
      | UNKNOWN \<Rightarrow> ([], Inl (Error (str ''Invalid provider selected''))))"

text \<open>
  The \<open>catch\<close> of \<open>generateTitle\<close>:
  \<^verbatim>\<open>
  console.error('Error generating title:', error);
  const errorMessage = error instanceof Error ? error.message : 'Unknown error';
  new Notice(`Failed to generate title: ${errorMessage}`);
  \<close>
\<close>

definition failed :: "js_error \<Rightarrow> event list" where
  "failed error =
     [ConsoleError (str ''Error generating title:'') error,
      Notice (str ''Failed to generate title: ''
              @ (case error of
                   Error m \<Rightarrow> m
                 | TypeError m \<Rightarrow> m
                 | NonError \<Rightarrow> str ''Unknown error''))]"

text \<open>
  The result is the list of events in the order the plugin causes them, and the path of the
  view's file afterwards: the host changes it when \<open>renameFile\<close> resolves, and nothing else
  does.
\<close>

definition generateTitle ::
  "host \<Rightarrow> AITitlePluginSettings \<Rightarrow> MarkdownView \<Rightarrow> event list \<times> jstring option" where
  "generateTitle h settings view =
     (let apiKey = getApiKey settings in
      if apiKey = [] then
        ([Notice (str ''Please set your '' @ getProviderName settings
                  @ str '' API key in the settings'')],
         filePath view)
      else
        (case filePath view of
           None \<Rightarrow> ([GetValue, Notice (str ''No file is currently open'')], None)
         | Some path \<Rightarrow>
             (let (evs, r) = callProvider h settings (editorValue view);
                  pre = [GetValue, Notice (str ''Generating title...'')] @ evs
              in case r of
                   Inl error \<Rightarrow> (pre @ failed error, Some path)
                 | Inr title \<Rightarrow>
                     if title \<noteq> [] then
                       (let sanitizedTitle = sanitizeFileName title;
                            newPath = replaceLastSegment path (sanitizedTitle @ str ''.md'')
                        in case renameFile h path newPath of
                             None \<Rightarrow>
                               (pre @ [RenameFile path newPath,
                                       Notice (str ''Title updated successfully'')],
                                Some newPath)
                           | Some error \<Rightarrow>
                               (pre @ RenameFile path newPath # failed error, Some path))
                     else (pre, Some path))))"

definition isRenameFile :: "event \<Rightarrow> bool" where
  "isRenameFile ev = (case ev of RenameFile old new \<Rightarrow> True | _ \<Rightarrow> False)"

definition isHttpRequest :: "event \<Rightarrow> bool" where
  "isHttpRequest ev = (case ev of HttpRequest req \<Rightarrow> True | _ \<Rightarrow> False)"

subsection \<open>Sample inputs\<close>

text \<open>
  A host that answers every request with the given status and body and lets every rename
  through; an Anthropic answer carrying the given text; settings with an Anthropic key; a
  view on the note \<open>notes/old.md\<close>.
\<close>

definition answeringHost :: "int \<Rightarrow> jsval \<Rightarrow> host" where
  "answeringHost st j =
     \<lparr>requestUrl = (\<lambda>req. Inr \<lparr>status = st, json = j\<rparr>),
      renameFile = (\<lambda>old new. None),
      ToString = (\<lambda>v. str ''[object Object]'')\<rparr>"

definition rejectingHost :: "js_error \<Rightarrow> host" where
  "rejectingHost e =
     \<lparr>requestUrl = (\<lambda>req. Inl e),
      renameFile = (\<lambda>old new. None),
      ToString = (\<lambda>v. str ''[object Object]'')\<rparr>"

text \<open>
  The editor's own \<open>requestUrl\<close>, as its API documents it: the parameter \<open>throw\<close> says
  whether to throw when the status code is 400 or more, and defaults to true. The plugin
  never sets it (\<open>makeAPIRequest\<close> passes \<open>url\<close>, \<open>method\<close>, \<open>headers\<close> and \<open>body\<close>
  only), so for such a status the promise is rejected with the editor's error
  \<open>Request failed, status N\<close> and the plugin never sees the response. \<open>server\<close> is what
  the provider sends back.
\<close>

definition obsidianRequestUrl :: "(request \<Rightarrow> response) \<Rightarrow> request \<Rightarrow> js_error + response" where
  "obsidianRequestUrl server req =
     (let response = server req in
      if 400 \<le> status response
      then Inl (Error (str ''Request failed, status '' @ Number_toString (status response)))
      else Inr response)"

definition obsidianHost :: "(request \<Rightarrow> response) \<Rightarrow> host" where
  "obsidianHost server =
     \<lparr>requestUrl = obsidianRequestUrl server,
      renameFile = (\<lambda>old new. None),
      ToString = (\<lambda>v. str ''[object Object]'')\<rparr>"

definition anthropicAnswer :: "jstring \<Rightarrow> jsval" where
  "anthropicAnswer s = JObj [(str ''content'', JArr [JObj [(str ''text'', JStr s)]])]"

definition rateLimited :: jsval where
  "rateLimited = JObj [(str ''error'', JObj [(str ''message'', JStr (str ''rate limited''))])]"

definition sampleSettings :: AITitlePluginSettings where
  "sampleSettings = DEFAULT_SETTINGS\<lparr>anthropicApiKey := str ''sk-ant-test''\<rparr>"

definition sampleView :: MarkdownView where
  "sampleView =
     \<lparr>editorValue = str ''Some note text'', filePath = Some (str ''notes/old.md'')\<rparr>"

section \<open>Properties\<close>

subsection \<open>The sanitizer\<close>

lemma set_trim_subset: "set (trim s) \<subseteq> set s"
proof -
  have "set (trim s) \<subseteq> set (dropWhile isWhiteSpace s)"
    using set_dropWhileD[of _ isWhiteSpace "rev (dropWhile isWhiteSpace s)"]
    by (auto simp: trim_def)
  also have "\<dots> \<subseteq> set s"
    using set_dropWhileD[of _ isWhiteSpace s] by auto
  finally show ?thesis .
qed

lemma set_replace_dotdot_subset: "set (replace_dotdot s) \<subseteq> set s"
  by (induction s rule: replace_dotdot.induct) auto

lemma replace_dotdot_plain: "0x2E \<notin> set s \<Longrightarrow> replace_dotdot s = s"
  by (induction s rule: replace_dotdot.induct) auto

lemma trim_all_whitespace:
  assumes "\<forall>c\<in>set s. isWhiteSpace c"
  shows "trim s = []"
proof -
  have d: "dropWhile isWhiteSpace s = []"
    using assms by (induction s) auto
  show ?thesis unfolding trim_def d by simp
qed

lemma whitespace_not_dot: "isWhiteSpace c \<Longrightarrow> c \<noteq> 0x2E"
  by (auto simp: isWhiteSpace_def)

lemma sanitizeFileName_empty:
  assumes "\<forall>c\<in>set title. c \<in> set invalid_chars \<or> isWhiteSpace c"
  shows "sanitizeFileName title = []"
proof -
  let ?kept = "filter (\<lambda>c. c \<notin> set invalid_chars) title"
  have ws: "\<forall>c\<in>set ?kept. isWhiteSpace c"
    using assms by auto
  then have "0x2E \<notin> set ?kept"
    using whitespace_not_dot by blast
  then have "replace_dotdot ?kept = ?kept"
    by (rule replace_dotdot_plain)
  then show ?thesis
    using ws by (simp add: sanitizeFileName_def trim_all_whitespace)
qed

text \<open>The sanitizer only deletes: what it returns was in the input and is no invalid character.\<close>

lemma set_sanitizeFileName:
  "set (sanitizeFileName fileName) \<subseteq> {c \<in> set fileName. c \<notin> set invalid_chars}"
proof -
  have "set (sanitizeFileName fileName)
          \<subseteq> set (filter (\<lambda>c. c \<notin> set invalid_chars) fileName)"
    unfolding sanitizeFileName_def
    using set_trim_subset set_replace_dotdot_subset by blast
  then show ?thesis by auto
qed

text \<open>
  Claim C6: whatever the input, the output of \<open>sanitizeFileName\<close> contains none of the
  characters \<open>\ / : * ? " < > |\<close>; in particular so for an input that contains some.
\<close>

theorem sanitizeFileName_no_invalid_chars:
  "set (sanitizeFileName fileName) \<inter> set invalid_chars = {}"
  using set_sanitizeFileName[of fileName] by auto

theorem sanitizeFileName_no_invalid_chars_witness:
  "set (sanitizeFileName (str ''What/Why: a <b> | c?'')) \<inter> set invalid_chars = {}"
  by (rule sanitizeFileName_no_invalid_chars)

text \<open>
  Claim C4 says that the output never holds two adjacent dots. The code replaces each pair
  of dots by one dot in a single pass, so a run of three dots leaves two: for the title
  \<open>So... what now\<close> the sanitized name is \<open>So.. what now\<close>, which contains \<open>..\<close>.
\<close>

theorem sanitizeFileName_three_dots_leave_two:
  "sanitizeFileName (str ''So... what now'') = str ''So.. what now''
   \<and> sublist (str ''..'') (sanitizeFileName (str ''So... what now''))"
  by (simp add: sanitizeFileName_def str_def trim_def isWhiteSpace_def invalid_chars_def
      sublist_Cons_right)

text \<open>
  Claim C5 says that sanitizing twice gives the same as sanitizing once. On \<open>a...b\<close> the
  first pass gives \<open>a..b\<close> and the second \<open>a.b\<close>: the pairwise replacement of dots is
  not idempotent, so neither is \<open>sanitizeFileName\<close>.
\<close>

theorem sanitizeFileName_twice_differs:
  "sanitizeFileName (str ''a...b'') = str ''a..b''
   \<and> sanitizeFileName (sanitizeFileName (str ''a...b'')) = str ''a.b''
   \<and> sanitizeFileName (sanitizeFileName (str ''a...b'')) \<noteq> sanitizeFileName (str ''a...b'')"
  by (simp add: sanitizeFileName_def str_def trim_def isWhiteSpace_def invalid_chars_def)

subsection \<open>Reading the provider's answer\<close>

text \<open>
  Claim C9: for an Anthropic answer whose \<open>content\<close> is an array starting with an object
  whose \<open>text\<close> is a non-empty string \<open>s\<close>, the extraction returns \<open>s\<close> trimmed.
\<close>

theorem anthropicTitle_well_formed:
  assumes "map_of kvs (str ''content'') = Some (JArr (JObj kvs0 # others))"
    and "map_of kvs0 (str ''text'') = Some (JStr s)"
    and "s \<noteq> []"
  shows "anthropicTitle (JObj kvs) = Inr (trim s)"
  using assms by (simp add: anthropicTitle_def guarded_def)

theorem anthropicTitle_well_formed_witness:
  "anthropicTitle (JObj [(str ''content'', JArr [JObj [(str ''text'', JStr (str ''Foo bar''))]])])
     = Inr (str ''Foo bar'')"
  using anthropicTitle_well_formed
          [of "[(str ''content'', JArr [JObj [(str ''text'', JStr (str ''Foo bar''))]])]"
              "[(str ''text'', JStr (str ''Foo bar''))]" "[]" "str ''Foo bar''"]
  by (simp add: str_def trim_def isWhiteSpace_def)

text \<open>
  When the answer is neither \<open>null\<close> nor \<open>undefined\<close>, the Anthropic extraction either
  throws the format error or has found a truthy value at every step of \<open>content[0].text\<close>.
\<close>

lemma anthropicTitle_cases:
  assumes "data \<noteq> JNull" and "data \<noteq> JUndefined"
  shows "anthropicTitle data
           = Inl (Error (str ''Unexpected response format from Anthropic API''))
       \<or> (\<exists>content content0 t.
             getProp data (str ''content'') = Inr content \<and> truthy content
           \<and> getIndex content 0 = Inr content0 \<and> truthy content0
           \<and> getProp content0 (str ''text'') = Inr t \<and> truthy t
           \<and> anthropicTitle data = callTrim (str ''data.content[0].text'') t)"
proof -
  obtain content where c: "getProp data (str ''content'') = Inr content"
    using assms by (cases data) auto
  show ?thesis
  proof (cases "truthy content")
    case False
    then show ?thesis by (simp add: anthropicTitle_def guarded_def c)
  next
    case True
    then have "content \<noteq> JNull" "content \<noteq> JUndefined" by auto
    then obtain content0 where c0: "getIndex content 0 = Inr content0"
      by (cases content) auto
    show ?thesis
    proof (cases "truthy content0")
      case False
      then show ?thesis using True by (simp add: anthropicTitle_def guarded_def c c0)
    next
      case t0: True
      then have "content0 \<noteq> JNull" "content0 \<noteq> JUndefined" by auto
      then obtain t where t: "getProp content0 (str ''text'') = Inr t"
        by (cases content0) auto
      show ?thesis using True t0 by (simp add: anthropicTitle_def guarded_def c c0 t)
    qed
  qed
qed

text \<open>The three shapes the specification names: no \<open>content\<close>, an empty one, no \<open>text\<close>.\<close>

lemma anthropicTitle_missing_examples:
  "anthropicTitle (JObj [])
     = Inl (Error (str ''Unexpected response format from Anthropic API''))"
  "anthropicTitle (JObj [(str ''content'', JArr [])])
     = Inl (Error (str ''Unexpected response format from Anthropic API''))"
  "anthropicTitle (JObj [(str ''content'', JArr [JObj []])])
     = Inl (Error (str ''Unexpected response format from Anthropic API''))"
  by (simp_all add: anthropicTitle_def guarded_def)

text \<open>
  Claim C3 says that an answer lacking a segment of the path never leads to a read from
  \<open>null\<close>. The guard of each provider call starts at \<open>data.content\<close> (\<open>data.choices\<close>,
  \<open>data.candidates\<close>) without testing \<open>data\<close> itself, so a body that is the JSON value
  \<open>null\<close> makes that first read throw a TypeError, which is what the user is then shown,
  where \<open>makeAPIRequest\<close> does test \<open>errorData\<close> before reading \<open>errorData.error\<close>.
\<close>

theorem anthropicTitle_null_body:
  "anthropicTitle JNull
     = Inl (TypeError (str ''Cannot read properties of null (reading ''
                       @ [0x27] @ str ''content'' @ [0x27] @ str '')''))
   \<and> anthropicTitle JNull
       \<noteq> Inl (Error (str ''Unexpected response format from Anthropic API''))
   \<and> snd (callAnthropicAPI (answeringHost 200 JNull) sampleSettings (str ''Some note text''))
       = anthropicTitle JNull
   \<and> (\<exists>m. openaiTitle JNull = Inl (TypeError m))
   \<and> (\<exists>m. geminiTitle JNull = Inl (TypeError m))"
  by (simp add: anthropicTitle_def openaiTitle_def geminiTitle_def guarded_def cannotRead_def
      callAnthropicAPI_def makeAPIRequest_def logAndRethrow_def answeringHost_def str_def)

subsection \<open>A status other than 200\<close>

lemma sublist_last_of_four: "sublist s (a @ b @ c @ s)"
  using sublist_append_leftI[of s "a @ b @ c"] by simp

lemma failureMessage_contains:
  "\<exists>msg. failureMessage h r = Inr msg
         \<and> sublist (Number_toString (status r)) msg
         \<and> (\<forall>s. getProp (json r) (str ''error'') = Inr (JStr s) \<longrightarrow> sublist s msg)
         \<and> (\<forall>e s. getProp (json r) (str ''error'') = Inr e
                    \<and> getProp e (str ''message'') = Inr (JStr s) \<longrightarrow> sublist s msg)"
proof (cases "json r")
  case (JObj kvs)
  show ?thesis
  proof (cases "map_of kvs (str ''error'')")
    case None
    then show ?thesis using JObj by (simp add: failureMessage_def Let_def)
  next
    case (Some err)
    show ?thesis
    proof (cases err)
      case (JStr s)
      then show ?thesis using JObj Some
        by (simp add: failureMessage_def Let_def sublist_last_of_four)
    next
      case inner: (JObj ekvs)
      show ?thesis
      proof (cases "map_of ekvs (str ''message'')")
        case None
        then show ?thesis using JObj Some inner by (simp add: failureMessage_def Let_def)
      next
        case m: (Some m)
        then show ?thesis using JObj Some inner
          by (cases m)
             (simp_all add: failureMessage_def Let_def templateString_def sublist_last_of_four)
      qed
    qed (use JObj Some in \<open>simp_all add: failureMessage_def Let_def\<close>)
  qed
qed (simp_all add: failureMessage_def Let_def)

text \<open>Each provider call throws on what \<open>makeAPIRequest\<close> throws.\<close>

lemma callProvider_request_failure:
  assumes "\<forall>req. requestUrl h req = Inr r"
    and "status r \<noteq> 200"
    and "provider settings \<noteq> UNKNOWN"
    and "failureMessage h r = Inr msg"
  shows "snd (callProvider h settings t) = Inl (Error msg)"
  using assms
  by (cases "provider settings")
     (simp_all add: callProvider_def callAnthropicAPI_def callOpenAIAPI_def callGeminiAPI_def
        makeAPIRequest_def logAndRethrow_def Let_def)

text \<open>
  The branch for a status other than 200, when \<open>requestUrl\<close> does hand the response to
  the plugin: the Error thrown carries the decimal status code, the value of \<open>error\<close> when
  that is a string, and \<open>error.message\<close> when that is a string.
\<close>

lemma makeAPIRequest_branch_message:
  assumes "requestUrl h \<lparr>url = u, httpMethod = str ''POST'', headers = hs, body = b\<rparr> = Inr r"
    and "status r \<noteq> 200"
  shows "\<exists>msg. snd (makeAPIRequest h u hs b) = Inl (Error msg)
           \<and> sublist (Number_toString (status r)) msg
           \<and> (\<forall>s. getProp (json r) (str ''error'') = Inr (JStr s) \<longrightarrow> sublist s msg)
           \<and> (\<forall>e s. getProp (json r) (str ''error'') = Inr e
                      \<and> getProp e (str ''message'') = Inr (JStr s) \<longrightarrow> sublist s msg)"
proof -
  obtain msg where m: "failureMessage h r = Inr msg"
    and rest: "sublist (Number_toString (status r)) msg"
      "\<forall>s. getProp (json r) (str ''error'') = Inr (JStr s) \<longrightarrow> sublist s msg"
      "\<forall>e s. getProp (json r) (str ''error'') = Inr e
             \<and> getProp e (str ''message'') = Inr (JStr s) \<longrightarrow> sublist s msg"
    using failureMessage_contains[of h r] by blast
  have "snd (makeAPIRequest h u hs b) = Inl (Error msg)"
    using assms m by (simp add: makeAPIRequest_def Let_def)
  then show ?thesis using rest by blast
qed

text \<open>
  Under the editor's \<open>requestUrl\<close> that branch is reached for a status below 400 only. For
  a status of 400 or more the request fails with the editor's error, whatever the body says.
\<close>

lemma makeAPIRequest_below_400:
  assumes "server \<lparr>url = u, httpMethod = str ''POST'', headers = hs, body = b\<rparr> = r"
    and "status r \<noteq> 200" and "status r < 400"
  shows "\<exists>msg. snd (makeAPIRequest (obsidianHost server) u hs b) = Inl (Error msg)
           \<and> failureMessage (obsidianHost server) r = Inr msg"
proof -
  obtain msg where m: "failureMessage (obsidianHost server) r = Inr msg"
    using failureMessage_contains[of "obsidianHost server" r] by blast
  then show ?thesis
    using assms
    by (simp add: makeAPIRequest_def obsidianHost_def obsidianRequestUrl_def Let_def)
qed

lemma makeAPIRequest_from_400:
  assumes "server \<lparr>url = u, httpMethod = str ''POST'', headers = hs, body = b\<rparr> = r"
    and "400 \<le> status r"
  shows "snd (makeAPIRequest (obsidianHost server) u hs b)
           = Inl (Error (str ''Request failed, status '' @ Number_toString (status r)))"
  using assms
  by (simp add: makeAPIRequest_def obsidianHost_def obsidianRequestUrl_def Let_def)

text \<open>
  Claim C7 says that for every status other than 200 the error shown contains the status
  code and the provider's error text, and names status 429 with the body
  \<open>{"error":{"message":"rate limited"}}\<close>. \<open>makeAPIRequest\<close> builds such a message, but
  it calls \<open>requestUrl\<close> without \<open>throw: false\<close>: for status 429 the editor rejects the
  request first, the plugin's branch is not reached, and the user is shown
  \<open>Request failed, status 429\<close>, which contains the code and not the provider's text.
\<close>

theorem generateTitle_status_429:
  "snd (makeAPIRequest (obsidianHost (\<lambda>req. \<lparr>status = 429, json = rateLimited\<rparr>))
          (str ''https://api.anthropic.com/v1/messages'') [] JNull)
     = Inl (Error (str ''Request failed, status 429''))
   \<and> sublist (str ''429'') (str ''Request failed, status 429'')
   \<and> \<not> sublist (str ''rate limited'') (str ''Request failed, status 429'')
   \<and> fst (generateTitle (obsidianHost (\<lambda>req. \<lparr>status = 429, json = rateLimited\<rparr>))
            sampleSettings sampleView)
     = [GetValue,
        Notice (str ''Generating title...''),
        HttpRequest \<lparr>url = str ''https://api.anthropic.com/v1/messages'',
                     httpMethod = str ''POST'',
                     headers = [(str ''Content-Type'', str ''application/json''),
                                (str ''x-api-key'', str ''sk-ant-test''),
                                (str ''anthropic-version'', str ''2023-06-01'')],
                     body = anthropicBody sampleSettings (str ''Some note text'')\<rparr>,
        ConsoleError (str ''Error calling Anthropic API:'')
          (Error (str ''Request failed, status 429'')),
        ConsoleError (str ''Error generating title:'')
          (Error (str ''Request failed, status 429'')),
        Notice (str ''Failed to generate title: Request failed, status 429'')]"
  by (simp add: generateTitle_def callProvider_def callAnthropicAPI_def makeAPIRequest_def
      logAndRethrow_def obsidianHost_def obsidianRequestUrl_def Number_toString_def
      digits.simps getApiKey_def failed_def DEFAULT_SETTINGS_def sampleSettings_def
      sampleView_def str_def Let_def sublist_Cons_right)

subsection \<open>generateTitle\<close>

text \<open>
  Claim C2: when the key of the configured provider is the empty string, \<open>generateTitle\<close>
  shows the notice that asks for the key and returns: no request is issued, the editor is
  not read, and the file keeps its path.
\<close>

theorem generateTitle_empty_key:
  assumes "getApiKey settings = []"
  shows "generateTitle h settings view
           = ([Notice (str ''Please set your '' @ getProviderName settings
                       @ str '' API key in the settings'')],
              filePath view)
       \<and> filter isHttpRequest (fst (generateTitle h settings view)) = []
       \<and> GetValue \<notin> set (fst (generateTitle h settings view))"
  using assms by (simp add: generateTitle_def isHttpRequest_def)

theorem generateTitle_empty_key_witness:
  "getApiKey DEFAULT_SETTINGS = []
   \<and> generateTitle (answeringHost 200 (anthropicAnswer (str ''Foo bar''))) DEFAULT_SETTINGS
        sampleView
       = ([Notice (str ''Please set your Anthropic API key in the settings'')],
          Some (str ''notes/old.md''))
   \<and> filter isHttpRequest
         (fst (generateTitle (answeringHost 200 (anthropicAnswer (str ''Foo bar'')))
                DEFAULT_SETTINGS sampleView)) = []"
proof -
  have k: "getApiKey DEFAULT_SETTINGS = []"
    by (simp add: getApiKey_def DEFAULT_SETTINGS_def)
  have n: "str ''Please set your '' @ getProviderName DEFAULT_SETTINGS
             @ str '' API key in the settings''
           = str ''Please set your Anthropic API key in the settings''"
    by (simp add: getProviderName_def DEFAULT_SETTINGS_def str_def)
  have p: "filePath sampleView = Some (str ''notes/old.md'')"
    by (simp add: sampleView_def)
  show ?thesis
    using generateTitle_empty_key
            [OF k, of "answeringHost 200 (anthropicAnswer (str ''Foo bar''))" sampleView]
    unfolding n p using k by (simp add: isHttpRequest_def)
qed

lemma makeAPIRequest_events:
  "fst (makeAPIRequest h u hs b)
     = [HttpRequest \<lparr>url = u, httpMethod = str ''POST'', headers = hs, body = b\<rparr>]"
  by (simp add: makeAPIRequest_def Let_def)

lemma logAndRethrow_renames:
  "filter isRenameFile (fst (logAndRethrow l p)) = filter isRenameFile (fst p)"
  by (simp add: logAndRethrow_def isRenameFile_def split: sum.splits)

lemma callProvider_renames:
  "filter isRenameFile (fst (callProvider h settings t)) = []"
  by (cases "provider settings")
     (simp_all add: callProvider_def callAnthropicAPI_def callOpenAIAPI_def callGeminiAPI_def
        logAndRethrow_renames split_def makeAPIRequest_events,
      simp_all add: isRenameFile_def)

lemma callProvider_no_rename: "RenameFile old new \<notin> set (fst (callProvider h settings t))"
proof
  assume "RenameFile old new \<in> set (fst (callProvider h settings t))"
  then have "RenameFile old new \<in> set (filter isRenameFile (fst (callProvider h settings t)))"
    by (simp add: isRenameFile_def)
  then show False by (simp add: callProvider_renames)
qed

text \<open>
  Claim C1: in every run of \<open>generateTitle\<close> the host is asked to rename at most once; a
  rename is asked for only when the provider call has returned a non-empty title, it comes
  after all events of that call, and its target is built from the sanitized title. With no
  key, with no file, or when the provider call throws, no rename is asked for and the file
  keeps its path.
\<close>

theorem generateTitle_renames_at_most_once:
  "length (filter isRenameFile (fst (generateTitle h settings view))) \<le> 1
   \<and> (\<forall>old new. RenameFile old new \<in> set (fst (generateTitle h settings view)) \<longrightarrow>
        (\<exists>evs title after.
           callProvider h settings (editorValue view) = (evs, Inr title) \<and> title \<noteq> []
           \<and> getApiKey settings \<noteq> [] \<and> filePath view = Some old
           \<and> new = replaceLastSegment old (sanitizeFileName title @ str ''.md'')
           \<and> fst (generateTitle h settings view)
               = [GetValue, Notice (str ''Generating title...'')] @ evs
                 @ RenameFile old new # after))
   \<and> (getApiKey settings = [] \<or> filePath view = None
        \<or> (\<exists>e. snd (callProvider h settings (editorValue view)) = Inl e) \<longrightarrow>
        filter isRenameFile (fst (generateTitle h settings view)) = []
        \<and> snd (generateTitle h settings view) = filePath view)"
proof -
  obtain evs r where cp: "callProvider h settings (editorValue view) = (evs, r)"
    by (cases "callProvider h settings (editorValue view)")
  have fe: "filter isRenameFile evs = []"
    using callProvider_renames[of h settings "editorValue view"] cp by simp
  have nr: "\<And>a b. RenameFile a b \<notin> set evs"
    using callProvider_no_rename[of _ _ h settings "editorValue view"] cp by simp
  have ff: "\<And>e. filter isRenameFile (failed e) = []"
    by (simp add: failed_def isRenameFile_def)
  show ?thesis
    using fe nr ff
    by (auto simp: generateTitle_def Let_def cp isRenameFile_def failed_def
             split: option.splits sum.splits)
qed

theorem generateTitle_renames_at_most_once_witness:
  "length (filter isRenameFile
             (fst (generateTitle (answeringHost 200 (anthropicAnswer (str '' Foo: bar '')))
                     sampleSettings sampleView))) \<le> 1
   \<and> RenameFile (str ''notes/old.md'') (str ''notes/Foo bar.md'')
       \<in> set (fst (generateTitle (answeringHost 200 (anthropicAnswer (str '' Foo: bar '')))
                      sampleSettings sampleView))
   \<and> snd (callProvider (answeringHost 200 (anthropicAnswer (str '' Foo: bar '')))
             sampleSettings (editorValue sampleView)) = Inr (str ''Foo: bar'')
   \<and> snd (callProvider (rejectingHost (Error (str ''net::ERR_FAILED''))) sampleSettings
             (editorValue sampleView)) = Inl (Error (str ''net::ERR_FAILED''))
   \<and> filter isRenameFile
         (fst (generateTitle (rejectingHost (Error (str ''net::ERR_FAILED''))) sampleSettings
                 sampleView)) = []
   \<and> snd (generateTitle (rejectingHost (Error (str ''net::ERR_FAILED''))) sampleSettings
            sampleView) = Some (str ''notes/old.md'')"
proof -
  let ?ok = "answeringHost 200 (anthropicAnswer (str '' Foo: bar ''))"
  let ?ko = "rejectingHost (Error (str ''net::ERR_FAILED''))"
  have r: "RenameFile (str ''notes/old.md'') (str ''notes/Foo bar.md'')
             \<in> set (fst (generateTitle ?ok sampleSettings sampleView))"
    by (simp add: generateTitle_def callProvider_def callAnthropicAPI_def makeAPIRequest_def
        logAndRethrow_def anthropicTitle_def guarded_def sanitizeFileName_def trim_def
        isWhiteSpace_def invalid_chars_def replaceLastSegment_def lastSegment_def
        beforeLastSegment_def getApiKey_def failed_def DEFAULT_SETTINGS_def sampleSettings_def
        sampleView_def answeringHost_def anthropicAnswer_def str_def Let_def)
  have t: "snd (callProvider ?ok sampleSettings (editorValue sampleView))
             = Inr (str ''Foo: bar'')"
    by (simp add: callProvider_def callAnthropicAPI_def makeAPIRequest_def logAndRethrow_def
        anthropicTitle_def guarded_def trim_def isWhiteSpace_def DEFAULT_SETTINGS_def
        sampleSettings_def answeringHost_def anthropicAnswer_def str_def Let_def)
  have e: "snd (callProvider ?ko sampleSettings (editorValue sampleView))
             = Inl (Error (str ''net::ERR_FAILED''))"
    by (simp add: callProvider_def callAnthropicAPI_def makeAPIRequest_def logAndRethrow_def
        DEFAULT_SETTINGS_def sampleSettings_def rejectingHost_def Let_def)
  have p: "filePath sampleView = Some (str ''notes/old.md'')"
    by (simp add: sampleView_def)
  have once: "length (filter isRenameFile (fst (generateTitle ?ok sampleSettings sampleView))) \<le> 1"
    using generateTitle_renames_at_most_once[of ?ok sampleSettings sampleView] by (rule conjunct1)
  have none: "filter isRenameFile (fst (generateTitle ?ko sampleSettings sampleView)) = []
              \<and> snd (generateTitle ?ko sampleSettings sampleView) = filePath sampleView"
    using generateTitle_renames_at_most_once[of ?ko sampleSettings sampleView] e by blast
  show ?thesis
    using once none r t e unfolding p by blast
qed

subsection \<open>The path asked for\<close>

lemma GetSubstitution_plain: "0x24 \<notin> set r \<Longrightarrow> GetSubstitution m p q r = r"
  by (induction m p q r rule: GetSubstitution.induct) auto

lemma segments_partition: "beforeLastSegment path @ lastSegment path = path"
  unfolding beforeLastSegment_def lastSegment_def
  by (metis rev_append rev_rev_ident takeWhile_dropWhile_id)

text \<open>
  With no dollar sign in the sanitized title the last segment of the path becomes the title
  followed by \<open>.md\<close>, and what comes before that segment stays.
\<close>

lemma replaceLastSegment_plain:
  assumes "lastSegment path \<noteq> []" and "0x24 \<notin> set t"
  shows "replaceLastSegment path (t @ str ''.md'') = beforeLastSegment path @ t @ str ''.md''"
proof -
  have "0x24 \<notin> set (t @ str ''.md'')"
    using assms(2) by (simp add: str_def)
  then show ?thesis
    using assms(1) by (simp add: replaceLastSegment_def GetSubstitution_plain)
qed

lemma beforeLastSegment_append:
  assumes "0x2F \<notin> set t"
  shows "beforeLastSegment (beforeLastSegment p @ t) = beforeLastSegment p"
proof -
  have "dropWhile (\<lambda>c. c \<noteq> 0x2F) (rev t @ dropWhile (\<lambda>c. c \<noteq> 0x2F) (rev p))
          = dropWhile (\<lambda>c. c \<noteq> 0x2F) (rev p)"
    using assms by (simp add: dropWhile_append)
  then show ?thesis by (simp add: beforeLastSegment_def)
qed

text \<open>
  So a sanitized title without a dollar sign becomes the name of the file, in the folder the
  file was in.
\<close>

lemma renamed_in_same_folder:
  assumes "lastSegment path \<noteq> []" and "0x24 \<notin> set (sanitizeFileName title)"
  shows "replaceLastSegment path (sanitizeFileName title @ str ''.md'')
           = beforeLastSegment path @ sanitizeFileName title @ str ''.md''"
    and "beforeLastSegment (replaceLastSegment path (sanitizeFileName title @ str ''.md''))
           = beforeLastSegment path"
    and "lastSegment (replaceLastSegment path (sanitizeFileName title @ str ''.md''))
           = sanitizeFileName title @ str ''.md''"
proof -
  let ?name = "sanitizeFileName title @ str ''.md''"
  show eq: "replaceLastSegment path ?name = beforeLastSegment path @ ?name"
    using assms by (simp add: replaceLastSegment_plain)
  have "0x2F \<notin> set (sanitizeFileName title)"
    using set_sanitizeFileName[of title] by (auto simp: invalid_chars_def)
  then have slash: "0x2F \<notin> set ?name"
    by (simp add: str_def)
  show "beforeLastSegment (replaceLastSegment path ?name) = beforeLastSegment path"
    unfolding eq using slash by (rule beforeLastSegment_append)
  then show "lastSegment (replaceLastSegment path ?name) = ?name"
    using segments_partition[of "replaceLastSegment path ?name"] unfolding eq by simp
qed

text \<open>
  Claim C8 says that the path asked for is the old path with its last segment replaced by
  the sanitized title and \<open>.md\<close>. The title is handed to \<open>String.prototype.replace\<close> as the
  replacement string, where \<open>$$\<close>, \<open>$&\<close>, \<open>$`\<close> and \<open>$'\<close> are patterns: for the title
  \<open>Save $$ now\<close> the host is asked for \<open>notes/Save $ now.md\<close>, and for \<open>a$`b\<close> for
  \<open>notes/anotes/b.md\<close>, a path in another folder.
\<close>

theorem generateTitle_dollar_in_title:
  "sanitizeFileName (str ''Save $$ now'') = str ''Save $$ now''
   \<and> RenameFile (str ''notes/old.md'') (str ''notes/Save $ now.md'')
       \<in> set (fst (generateTitle (answeringHost 200 (anthropicAnswer (str ''Save $$ now'')))
                      sampleSettings sampleView))
   \<and> RenameFile (str ''notes/old.md'') (str ''notes/anotes/b.md'')
       \<in> set (fst (generateTitle (answeringHost 200 (anthropicAnswer (str ''a$`b'')))
                      sampleSettings sampleView))"
  by (simp add: generateTitle_def callProvider_def callAnthropicAPI_def makeAPIRequest_def
      logAndRethrow_def anthropicTitle_def guarded_def sanitizeFileName_def trim_def
      isWhiteSpace_def invalid_chars_def replaceLastSegment_def lastSegment_def
      beforeLastSegment_def getApiKey_def failed_def DEFAULT_SETTINGS_def sampleSettings_def
      sampleView_def answeringHost_def anthropicAnswer_def str_def Let_def)

text \<open>
  Claim C10: the test before the rename reads the title as the provider call returned it.
  When that title is not empty and holds only characters that the sanitizer deletes or
  white space, the sanitized title is empty and the host is still asked to rename, to the
  old path with its last segment replaced by \<open>.md\<close>.
\<close>

theorem generateTitle_empty_stem:
  assumes "getApiKey settings \<noteq> []"
    and "filePath view = Some path"
    and "lastSegment path \<noteq> []"
    and "callProvider h settings (editorValue view) = (evs, Inr title)"
    and "title \<noteq> []"
    and "\<forall>c\<in>set title. c \<in> set invalid_chars \<or> isWhiteSpace c"
  shows "sanitizeFileName title = []
       \<and> RenameFile path (beforeLastSegment path @ str ''.md'')
           \<in> set (fst (generateTitle h settings view))"
proof -
  have s: "sanitizeFileName title = []"
    using assms(6) by (rule sanitizeFileName_empty)
  have p: "replaceLastSegment path (sanitizeFileName title @ str ''.md'')
             = beforeLastSegment path @ str ''.md''"
    using replaceLastSegment_plain[OF assms(3), of "[]"] s by simp
  show ?thesis
    using s p assms(1,2,4,5)
    by (simp add: generateTitle_def Let_def split: option.splits)
qed

theorem generateTitle_empty_stem_witness:
  "sanitizeFileName (str ''???'') = []
   \<and> RenameFile (str ''notes/old.md'') (str ''notes/.md'')
       \<in> set (fst (generateTitle (answeringHost 200 (anthropicAnswer (str ''???'')))
                      sampleSettings sampleView))"
proof -
  have 1: "getApiKey sampleSettings \<noteq> []"
    by (simp add: getApiKey_def sampleSettings_def DEFAULT_SETTINGS_def str_def)
  have 2: "filePath sampleView = Some (str ''notes/old.md'')"
    by (simp add: sampleView_def)
  have 3: "lastSegment (str ''notes/old.md'') \<noteq> []"
    by (simp add: lastSegment_def str_def)
  have 4: "callProvider (answeringHost 200 (anthropicAnswer (str ''???''))) sampleSettings
             (editorValue sampleView)
           = ([HttpRequest
                 \<lparr>url = str ''https://api.anthropic.com/v1/messages'', httpMethod = str ''POST'',
                  headers = [(str ''Content-Type'', str ''application/json''),
                             (str ''x-api-key'', str ''sk-ant-test''),
                             (str ''anthropic-version'', str ''2023-06-01'')],
                  body = anthropicBody sampleSettings (editorValue sampleView)\<rparr>],
              Inr (str ''???''))"
    by (simp add: callProvider_def callAnthropicAPI_def makeAPIRequest_def logAndRethrow_def
        anthropicTitle_def guarded_def trim_def isWhiteSpace_def sampleSettings_def
        DEFAULT_SETTINGS_def answeringHost_def anthropicAnswer_def str_def)
  have 5: "str ''???'' \<noteq> []"
    by (simp add: str_def)
  have 6: "\<forall>c\<in>set (str ''???''). c \<in> set invalid_chars \<or> isWhiteSpace c"
    by (simp add: str_def invalid_chars_def)
  have 7: "beforeLastSegment (str ''notes/old.md'') @ str ''.md'' = str ''notes/.md''"
    by (simp add: beforeLastSegment_def str_def)
  show ?thesis
    using generateTitle_empty_stem[OF 1 2 3 4 5 6] 7 by simp
qed

end
